theory Spec2Isabelle
  imports Main "HOL-Library.Word"
begin

section \<open>Values of the upload script\<close>

text \<open>
  The program is the single script \<^verbatim>\<open>pinata-upload.py\<close>: it reads two environment
  variables and the version of \<^verbatim>\<open>package.json\<close>, opens four build artifacts, sends
  them in one multipart POST and reports the status of the answer. Its behaviour is a
  sequence of effects, so the model is a trace of the effects together with the
  exception, if any, that ends the run.
\<close>

text \<open>
  What \<^verbatim>\<open>json.load\<close> and \<^verbatim>\<open>Response.json\<close> return: Python's \<^verbatim>\<open>None\<close>, \<^verbatim>\<open>bool\<close>,
  \<^verbatim>\<open>int\<close>, \<^verbatim>\<open>float\<close>, \<^verbatim>\<open>str\<close>, \<^verbatim>\<open>list\<close> and \<^verbatim>\<open>dict\<close>. A float is the
  bit pattern of its IEEE 754 double; the script never computes with one. A dict is the
  list of its items in insertion order.
\<close>

datatype pyfloat = Double (bits: "64 word")

datatype json =
    JNull
  | JBool bool
  | JInt int
  | JFloat pyfloat
  | JString string
  | JArray "json list"
  | JObject "(string \<times> json) list"

text \<open>
  The exceptions that can end the run. \<open>ValueError\<close> stands for the decoding errors
  (\<^verbatim>\<open>json.JSONDecodeError\<close>, \<^verbatim>\<open>UnicodeDecodeError\<close> and the \<^verbatim>\<open>JSONDecodeError\<close> of
  \<^verbatim>\<open>requests\<close> are all subclasses of it), \<open>RecursionError\<close> is what the parser raises
  on input nested too deeply, \<open>UnicodeEncodeError\<close> is what \<^verbatim>\<open>print\<close> raises on text
  that standard output cannot encode, \<open>RequestException\<close> stands for whatever
  \<^verbatim>\<open>requests.post\<close> raises.
\<close>

datatype error =
    KeyError string
  | TypeError
  | OSError string
  | ValueError
  | RecursionError
  | UnicodeEncodeError
  | RequestException

text \<open>An open file object: the path it was opened at and the text it yields.\<close>

datatype fileobj = FileObj (path: string) (contents: string)

text \<open>
  One entry of the \<^verbatim>\<open>files\<close> list: \<^verbatim>\<open>(field, (name, fileobj, content_type))\<close>.
\<close>

type_synonym upload_item = "string \<times> string \<times> fileobj \<times> string"

definition field_name :: "upload_item \<Rightarrow> string" where
  "field_name item = fst item"

definition part_name :: "upload_item \<Rightarrow> string" where
  "part_name item = fst (snd item)"

definition part_file :: "upload_item \<Rightarrow> fileobj" where
  "part_file item = fst (snd (snd item))"

definition content_type :: "upload_item \<Rightarrow> string" where
  "content_type item = snd (snd (snd item))"

text \<open>
  The arguments of the one call \<^verbatim>\<open>requests.post(url, headers=..., files=...)\<close>; the
  headers dict is the list of its items as written.
\<close>

record request =
  url :: string
  headers :: "(string \<times> string) list"
  req_files :: "upload_item list"

text \<open>The two things the script reads of the answer: \<^verbatim>\<open>r.status_code\<close> and the body.\<close>

record response =
  status_code :: int
  body :: string

text \<open>
  The effects of a run, in the order they happen: a call of \<^verbatim>\<open>open(path)\<close> (whether or
  not it succeeds), a line written by \<^verbatim>\<open>print\<close>, a call of \<^verbatim>\<open>requests.post\<close>.
\<close>

datatype event =
    Open string
  | Print string
  | Post request

text \<open>
  Everything outside the script. \<open>environ\<close> is \<^verbatim>\<open>os.environ\<close>; \<open>fs\<close> gives the text of
  each file that can be opened (\<open>None\<close>: \<^verbatim>\<open>open\<close> raises \<^verbatim>\<open>OSError\<close>); \<open>json_load\<close> is
  the parser behind \<^verbatim>\<open>json.load\<close>: the value, or the exception it raises; \<open>render\<close>
  is Python's \<^verbatim>\<open>str\<close> on the values that are not strings; \<open>stdout_accepts\<close> tells of
  a line that is not plain ASCII whether standard output can encode it; \<open>post\<close> is the
  network: the answer to a request, or the exception \<^verbatim>\<open>requests.post\<close> raises;
  \<open>response_json\<close> is the parser behind \<^verbatim>\<open>Response.json\<close>, applied to the body: the
  value, or the exception it raises.
\<close>

record world =
  environ :: "string \<rightharpoonup> string"
  fs :: "string \<rightharpoonup> string"
  json_load :: "string \<Rightarrow> error + json"
  render :: "json \<Rightarrow> string"
  stdout_accepts :: "string \<Rightarrow> bool"
  post :: "request \<Rightarrow> error + response"
  response_json :: "string \<Rightarrow> error + json"

section \<open>Statements with effects\<close>

text \<open>
  A statement takes the trace so far and returns the extended trace with either the
  exception it raised or its value. An exception is never caught in the script, so
  \<open>bind\<close> stops at the first one.
\<close>

type_synonym 'a prog = "event list \<Rightarrow> (error + 'a) \<times> event list"

definition bind :: "'a prog \<Rightarrow> ('a \<Rightarrow> 'b prog) \<Rightarrow> 'b prog" where
  "bind m f tr =
     (case m tr of
        (Inl e, tr') \<Rightarrow> (Inl e, tr')
      | (Inr x, tr') \<Rightarrow> f x tr')"

text \<open>\<^verbatim>\<open>os.environ[key]\<close>: \<^verbatim>\<open>KeyError\<close> when the variable is not set.\<close>

definition environ_getitem :: "world \<Rightarrow> string \<Rightarrow> string prog" where
  "environ_getitem w key tr =
     (case environ w key of
        None \<Rightarrow> (Inl (KeyError key), tr)
      | Some v \<Rightarrow> (Inr v, tr))"

text \<open>\<^verbatim>\<open>open(p)\<close>, in text mode for reading.\<close>

definition py_open :: "world \<Rightarrow> string \<Rightarrow> fileobj prog" where
  "py_open w p tr =
     (case fs w p of
        None \<Rightarrow> (Inl (OSError p), tr @ [Open p])
      | Some txt \<Rightarrow> (Inr (FileObj p txt), tr @ [Open p]))"

text \<open>\<^verbatim>\<open>json.load(fp)\<close>: whatever the parser raises is raised.\<close>

definition json_load_file :: "world \<Rightarrow> fileobj \<Rightarrow> json prog" where
  "json_load_file w fp tr =
     (case json_load w (contents fp) of
        Inl e \<Rightarrow> (Inl e, tr)
      | Inr v \<Rightarrow> (Inr v, tr))"

text \<open>
  \<^verbatim>\<open>obj[key]\<close> with a string key: a dict looks the key up and raises \<^verbatim>\<open>KeyError\<close>
  when it is missing; every other JSON value raises \<^verbatim>\<open>TypeError\<close> (a list or a string
  wants an integer index, the rest cannot be subscripted).
\<close>

definition getitem :: "json \<Rightarrow> string \<Rightarrow> json prog" where
  "getitem obj key tr =
     (case obj of
        JObject items \<Rightarrow>
          (case map_of items key of
             None \<Rightarrow> (Inl (KeyError key), tr)
           | Some v \<Rightarrow> (Inr v, tr))
      | _ \<Rightarrow> (Inl TypeError, tr))"

text \<open>
  \<^verbatim>\<open>print(line)\<close>. The line is encoded for standard output, and \<^verbatim>\<open>print\<close> raises
  \<^verbatim>\<open>UnicodeEncodeError\<close> when the encoding cannot take it: a lone surrogate under any
  encoding, any character beyond ASCII under an ASCII one. A character is a byte here, and
  it is plain ASCII when its top bit is clear. Standard output is taken to be open, with
  an encoding that takes plain ASCII; so a plain ASCII line is always written, and the
  world decides for every other line. A line that is not written leaves no event.
\<close>

definition plain_ascii :: "string \<Rightarrow> bool" where
  "plain_ascii line = list_all (\<lambda>c. \<not> digit7 c) line"

definition stdout_writes :: "world \<Rightarrow> string \<Rightarrow> bool" where
  "stdout_writes w line = (plain_ascii line \<or> stdout_accepts w line)"

definition py_print :: "world \<Rightarrow> string \<Rightarrow> unit prog" where
  "py_print w line tr =
     (if stdout_writes w line then (Inr (), tr @ [Print line])
      else (Inl UnicodeEncodeError, tr))"

text \<open>\<^verbatim>\<open>str(n)\<close> for an integer: decimal digits, a minus sign when negative.\<close>

fun str_nat :: "nat \<Rightarrow> string" where
  "str_nat n =
     (if n < 10 then [''0123456789'' ! n]
      else str_nat (n div 10) @ [''0123456789'' ! (n mod 10)])"

declare str_nat.simps [simp del]

definition str_int :: "int \<Rightarrow> string" where
  "str_int i = (if i < 0 then ''-'' @ str_nat (nat (- i)) else str_nat (nat i))"

text \<open>
  \<^verbatim>\<open>str(v)\<close>, which is also what an f-string field \<^verbatim>\<open>{v}\<close> and \<^verbatim>\<open>print(v)\<close> write: a
  string is itself, any other value is rendered by Python.
\<close>

definition py_str :: "world \<Rightarrow> json \<Rightarrow> string" where
  "py_str w v = (case v of JString s \<Rightarrow> s | _ \<Rightarrow> render w v)"

text \<open>\<^verbatim>\<open>requests.post(...)\<close>: the call is an effect whether it returns or raises.\<close>

definition requests_post :: "world \<Rightarrow> request \<Rightarrow> response prog" where
  "requests_post w req tr =
     (case post w req of
        Inl e \<Rightarrow> (Inl e, tr @ [Post req])
      | Inr r \<Rightarrow> (Inr r, tr @ [Post req]))"

text \<open>\<^verbatim>\<open>r.json()\<close>: whatever the parser raises is raised.\<close>

definition r_json :: "world \<Rightarrow> response \<Rightarrow> json prog" where
  "r_json w r tr =
     (case response_json w (body r) of
        Inl e \<Rightarrow> (Inl e, tr)
      | Inr v \<Rightarrow> (Inr v, tr))"

section \<open>The script\<close>

text \<open>Line 5: \<^verbatim>\<open>PINATA_API_KEY = os.environ["PINATA_API_KEY"]\<close>.\<close>

definition PINATA_API_KEY :: "world \<Rightarrow> string prog" where
  "PINATA_API_KEY w = environ_getitem w ''PINATA_API_KEY''"

text \<open>Line 6: \<^verbatim>\<open>PINATA_SECRET_API_KEY = os.environ["PINATA_SECRET_API_KEY"]\<close>.\<close>

definition PINATA_SECRET_API_KEY :: "world \<Rightarrow> string prog" where
  "PINATA_SECRET_API_KEY w = environ_getitem w ''PINATA_SECRET_API_KEY''"

text \<open>Line 7: \<^verbatim>\<open>VERSION=json.load(open("package.json"))["version"]\<close>.\<close>

definition VERSION :: "world \<Rightarrow> json prog" where
  "VERSION w =
     bind (py_open w ''package.json'') (\<lambda>fp.
     bind (json_load_file w fp) (\<lambda>manifest.
     getitem manifest ''version''))"

text \<open>
  Lines 9 to 14, the list \<^verbatim>\<open>files\<close>. The four tuples are built in order; in each the
  f-string cannot raise, so the only effects are the four calls of \<^verbatim>\<open>open\<close>.
\<close>

definition files :: "world \<Rightarrow> json \<Rightarrow> upload_item list prog" where
  "files w version =
     bind (py_open w ''dist/cactus.js'') (\<lambda>f1.
     bind (py_open w ''dist/cactus.js.map'') (\<lambda>f2.
     bind (py_open w ''dist/style.css'') (\<lambda>f3.
     bind (py_open w ''dist/style.js.map'') (\<lambda>f4.
     Pair (Inr
       [(''file'', (py_str w version @ ''/cactus.js'', f1, ''text/javascript'')),
        (''file'', (py_str w version @ ''/cactus.js.map'', f2, ''application/json'')),
        (''file'', (py_str w version @ ''/style.css'', f3, ''text/css'')),
        (''file'', (py_str w version @ ''/style.css.map'', f4, ''application/json''))])))))"

text \<open>Lines 26 to 29: the line that reports the status.\<close>

definition status_line :: "response \<Rightarrow> string" where
  "status_line r =
     (if status_code r = 200 then ''Success!''
      else ''Error: '' @ str_int (status_code r))"

text \<open>Lines 26 to 31: the status check and \<^verbatim>\<open>print(r.json())\<close>.\<close>

definition report :: "world \<Rightarrow> response \<Rightarrow> unit prog" where
  "report w r =
     bind (py_print w (status_line r)) (\<lambda>_.
     bind (r_json w r) (\<lambda>parsed.
     py_print w (py_str w parsed)))"

text \<open>
  Lines 17 to 24: the arguments of the call of \<^verbatim>\<open>requests.post\<close>, given the two
  credentials and the list \<^verbatim>\<open>files\<close>.
\<close>

definition upload_request :: "string \<Rightarrow> string \<Rightarrow> upload_item list \<Rightarrow> request" where
  "upload_request api_key secret_key fl =
     \<lparr>url = ''https://api.pinata.cloud/pinning/pinFileToIPFS'',
      headers = [(''pinata_api_key'', api_key),
                 (''pinata_secret_api_key'', secret_key)],
      req_files = fl\<rparr>"

text \<open>The whole script, top to bottom.\<close>

definition script :: "world \<Rightarrow> unit prog" where
  "script w =
     bind (PINATA_API_KEY w) (\<lambda>api_key.
     bind (PINATA_SECRET_API_KEY w) (\<lambda>secret_key.
     bind (VERSION w) (\<lambda>version.
     bind (files w version) (\<lambda>fl.
     bind (py_print w (''Uploading '' @ py_str w version @ '': ''
                         @ str_int (int (length fl)) @ '' files...'')) (\<lambda>_.
     bind (requests_post w (upload_request api_key secret_key fl)) (\<lambda>r.
     report w r))))))"

text \<open>
  A run starts with an empty trace. It ends with the trace of its effects and the
  exception that was raised, if any; the interpreter exits with status 1 on an unhandled
  exception and with status 0 when the script runs to its end.
\<close>

record outcome =
  events :: "event list"
  raised :: "error option"

definition main :: "world \<Rightarrow> outcome" where
  "main w =
     (case script w [] of
        (Inl e, tr) \<Rightarrow> \<lparr>events = tr, raised = Some e\<rparr>
      | (Inr _, tr) \<Rightarrow> \<lparr>events = tr, raised = None\<rparr>)"

definition exit_status :: "outcome \<Rightarrow> nat" where
  "exit_status out = (case raised out of None \<Rightarrow> 0 | Some _ \<Rightarrow> 1)"

text \<open>The requests of a trace, the paths it opened and the lines it printed.\<close>

definition posted :: "event list \<Rightarrow> request list" where
  "posted tr = concat (map (\<lambda>e. case e of Post q \<Rightarrow> [q] | _ \<Rightarrow> []) tr)"

definition opened :: "event list \<Rightarrow> string list" where
  "opened tr = concat (map (\<lambda>e. case e of Open p \<Rightarrow> [p] | _ \<Rightarrow> []) tr)"

definition printed :: "event list \<Rightarrow> string list" where
  "printed tr = concat (map (\<lambda>e. case e of Print s \<Rightarrow> [s] | _ \<Rightarrow> []) tr)"

text \<open>
  The same world with a service whose every answer carries status 200 and is otherwise
  unchanged: what a run would have been, had the upload been accepted.
\<close>

definition with_status_200 :: "world \<Rightarrow> world" where
  "with_status_200 w =
     w\<lparr>post := (\<lambda>q. case post w q of
                       Inl e \<Rightarrow> Inl e
                     | Inr r \<Rightarrow> Inr (r\<lparr>status_code := 200\<rparr>))\<rparr>"

section \<open>A concrete world\<close>

text \<open>
  A world to run the script in: both credentials set, a manifest with version 1.2.3, the
  four artifacts on disk, a standard output that encodes ASCII only, and a service that
  answers 200 with a JSON body. The two tables stand for Python's JSON parser and for
  \<^verbatim>\<open>str\<close> at the texts and values that occur in these runs; they are not consulted
  anywhere else.
\<close>

text \<open>
  The eight characters of the JSON text of a string that is one escaped lone surrogate
  (a quote, a backslash, \<^verbatim>\<open>ud800\<close>, a quote), and the string it parses to: the code
  point U+D800, as the three bytes UTF-8 gives it when surrogates are let through.
\<close>

definition surrogate_text :: string where
  "surrogate_text = [CHR 0x22, CHR 0x5C] @ ''ud800'' @ [CHR 0x22]"

definition lone_surrogate :: string where
  "lone_surrogate = [CHR 0xED, CHR 0xA0, CHR 0x80]"

definition sample_parse :: "string \<Rightarrow> error + json" where
  \<open>sample_parse txt =
     (if txt = ''{"version": "1.2.3"}'' then
        Inr (JObject [(''version'', JString ''1.2.3'')])
      else if txt = ''{"name": "cactus-client"}'' then
        Inr (JObject [(''name'', JString ''cactus-client'')])
      else if txt = ''{"IpfsHash": "QmHash"}'' then
        Inr (JObject [(''IpfsHash'', JString ''QmHash'')])
      else if txt = ''{"error": "boom"}'' then
        Inr (JObject [(''error'', JString ''boom'')])
      else if txt = surrogate_text then
        Inr (JString lone_surrogate)
      else Inl ValueError)\<close>

definition sample_render :: "json \<Rightarrow> string" where
  \<open>sample_render v =
     (if v = JObject [(''IpfsHash'', JString ''QmHash'')] then ''{'IpfsHash': 'QmHash'}''
      else if v = JObject [(''error'', JString ''boom'')] then ''{'error': 'boom'}''
      else [])\<close>

definition sample_world :: world where
  \<open>sample_world =
     \<lparr>environ = [''PINATA_API_KEY'' \<mapsto> ''key'', ''PINATA_SECRET_API_KEY'' \<mapsto> ''secret''],
      fs = [''package.json'' \<mapsto> ''{"version": "1.2.3"}'',
            ''dist/cactus.js'' \<mapsto> ''js'',
            ''dist/cactus.js.map'' \<mapsto> ''jsmap'',
            ''dist/style.css'' \<mapsto> ''css'',
            ''dist/style.js.map'' \<mapsto> ''cssmap''],
      json_load = sample_parse,
      render = sample_render,
      stdout_accepts = (\<lambda>line. False),
      post = (\<lambda>q. Inr \<lparr>status_code = 200, body = ''{"IpfsHash": "QmHash"}''\<rparr>),
      response_json = sample_parse\<rparr>\<close>

text \<open>The request the script builds in that world.\<close>

definition sample_request :: request where
  "sample_request =
     upload_request ''key'' ''secret''
        [(''file'', (''1.2.3/cactus.js'', FileObj ''dist/cactus.js'' ''js'', ''text/javascript'')),
         (''file'', (''1.2.3/cactus.js.map'', FileObj ''dist/cactus.js.map'' ''jsmap'',
                     ''application/json'')),
         (''file'', (''1.2.3/style.css'', FileObj ''dist/style.css'' ''css'', ''text/css'')),
         (''file'', (''1.2.3/style.css.map'', FileObj ''dist/style.js.map'' ''cssmap'',
                     ''application/json''))]"

text \<open>The same world without \<^verbatim>\<open>PINATA_API_KEY\<close>.\<close>

definition world_without_api_key :: world where
  "world_without_api_key =
     sample_world\<lparr>environ := [''PINATA_SECRET_API_KEY'' \<mapsto> ''secret'']\<rparr>"

text \<open>The same world with a manifest that has a name and no version.\<close>

definition world_without_version :: world where
  \<open>world_without_version =
     sample_world\<lparr>fs := (fs sample_world)(''package.json'' \<mapsto> ''{"name": "cactus-client"}'')\<rparr>\<close>

text \<open>The same world with a service that answers 500 with a JSON body.\<close>

definition world_error_json :: world where
  \<open>world_error_json =
     sample_world\<lparr>post := (\<lambda>q. Inr \<lparr>status_code = 500, body = ''{"error": "boom"}''\<rparr>)\<rparr>\<close>

text \<open>The same world with a service that answers 500 with a body that is not JSON.\<close>

definition world_error_text :: world where
  "world_error_text =
     sample_world\<lparr>post := (\<lambda>q. Inr \<lparr>status_code = 500, body = ''Internal Server Error''\<rparr>)\<rparr>"

text \<open>The same world with a network that fails.\<close>

definition world_offline :: world where
  "world_offline = sample_world\<lparr>post := (\<lambda>q. Inl RequestException)\<rparr>"

text \<open>The same world with a service that answers 200 with a body that is not JSON.\<close>

definition world_ok_text :: world where
  "world_ok_text = sample_world\<lparr>post := (\<lambda>q. Inr \<lparr>status_code = 200, body = ''OK''\<rparr>)\<rparr>"

text \<open>
  The same world with a service that answers 200 with a JSON body that standard output
  cannot encode.
\<close>

definition world_surrogate_body :: world where
  "world_surrogate_body =
     sample_world\<lparr>post := (\<lambda>q. Inr \<lparr>status_code = 200, body = surrogate_text\<rparr>)\<rparr>"

section \<open>The shape of a run\<close>

lemmas prims = bind_def environ_getitem_def py_open_def json_load_file_def getitem_def
  py_print_def requests_post_def r_json_def

lemmas sample_defs = sample_world_def sample_parse_def sample_render_def sample_request_def

text \<open>Plain ASCII lines: the decimal digits and the two status lines are such.\<close>

lemma plain_ascii_simps [simp]:
  "plain_ascii []"
  "plain_ascii (c # cs) = (\<not> digit7 c \<and> plain_ascii cs)"
  "plain_ascii (xs @ ys) = (plain_ascii xs \<and> plain_ascii ys)"
  by (simp_all add: plain_ascii_def)

lemma plain_ascii_digit: "n < 10 \<Longrightarrow> \<not> digit7 (''0123456789'' ! n)"
proof -
  assume "n < 10"
  then consider "n = 0" | "n = 1" | "n = 2" | "n = 3" | "n = 4" | "n = 5" | "n = 6"
    | "n = 7" | "n = 8" | "n = 9"
    by atomize_elim arith
  then show ?thesis
    by cases simp_all
qed

lemma plain_ascii_str_nat: "plain_ascii (str_nat n)"
proof (induction n rule: str_nat.induct)
  case (1 n)
  show ?case
  proof (cases "n < 10")
    case True
    then show ?thesis
      by (subst str_nat.simps) (simp add: plain_ascii_digit)
  next
    case False
    with "1" have "plain_ascii (str_nat (n div 10))"
      by simp
    moreover have "\<not> digit7 (''0123456789'' ! (n mod 10))"
      by (rule plain_ascii_digit) simp
    ultimately show ?thesis
      using False by (subst str_nat.simps) simp
  qed
qed

lemma plain_ascii_str_int: "plain_ascii (str_int i)"
  by (simp add: str_int_def plain_ascii_str_nat)

lemma plain_ascii_status_line: "plain_ascii (status_line r)"
  by (simp add: status_line_def plain_ascii_str_int)

lemma stdout_writes_status_line [simp]: "stdout_writes w (status_line r)"
  by (simp add: stdout_writes_def plain_ascii_status_line)

text \<open>
  The report prints the status line, then parses the body, then prints the value if
  standard output can write it.
\<close>

lemma report_eq:
  "report w r tr =
     (case response_json w (body r) of
        Inl e \<Rightarrow> (Inl e, tr @ [Print (status_line r)])
      | Inr v \<Rightarrow>
          (if stdout_writes w (py_str w v)
           then (Inr (), tr @ [Print (status_line r), Print (py_str w v)])
           else (Inl UnicodeEncodeError, tr @ [Print (status_line r)])))"
  by (simp add: report_def prims split: sum.splits)

text \<open>Reading the version opens the manifest and does nothing else.\<close>

lemma VERSION_trace: "VERSION w tr = (res, tr') \<Longrightarrow> tr' = tr @ [Open ''package.json'']"
  by (auto simp: VERSION_def prims split: option.splits sum.splits json.splits)

text \<open>The version is the value of the key \<^verbatim>\<open>version\<close> of the object the manifest parses to.\<close>

lemma VERSION_ok:
  "VERSION w tr = (Inr version, tr') \<Longrightarrow>
     \<exists>txt items. fs w ''package.json'' = Some txt \<and>
       json_load w txt = Inr (JObject items) \<and>
       map_of items ''version'' = Some version"
  by (auto simp: VERSION_def prims split: option.splits sum.splits json.splits)

text \<open>When the list of files is built, all four artifacts were opened, in order.\<close>

lemma files_ok:
  "files w version tr = (Inr fl, tr') \<Longrightarrow>
     \<exists>c1 c2 c3 c4.
       fs w ''dist/cactus.js'' = Some c1 \<and> fs w ''dist/cactus.js.map'' = Some c2 \<and>
       fs w ''dist/style.css'' = Some c3 \<and> fs w ''dist/style.js.map'' = Some c4 \<and>
       fl = [(''file'', (py_str w version @ ''/cactus.js'',
                        FileObj ''dist/cactus.js'' c1, ''text/javascript'')),
             (''file'', (py_str w version @ ''/cactus.js.map'',
                        FileObj ''dist/cactus.js.map'' c2, ''application/json'')),
             (''file'', (py_str w version @ ''/style.css'',
                        FileObj ''dist/style.css'' c3, ''text/css'')),
             (''file'', (py_str w version @ ''/style.css.map'',
                        FileObj ''dist/style.js.map'' c4, ''application/json''))] \<and>
       tr' = tr @ [Open ''dist/cactus.js'', Open ''dist/cactus.js.map'',
                   Open ''dist/style.css'', Open ''dist/style.js.map'']"
  by (auto simp: files_def prims split: option.splits)

text \<open>Whether or not it succeeds, building the list only opens files.\<close>

lemma files_trace: "files w version tr = (res, tr') \<Longrightarrow> \<exists>ps. tr' = tr @ map Open ps"
proof -
  assume a: "files w version tr = (res, tr')"
  have "tr' = tr @ map Open [''dist/cactus.js''] \<or>
        tr' = tr @ map Open [''dist/cactus.js'', ''dist/cactus.js.map''] \<or>
        tr' = tr @ map Open [''dist/cactus.js'', ''dist/cactus.js.map'', ''dist/style.css''] \<or>
        tr' = tr @ map Open [''dist/cactus.js'', ''dist/cactus.js.map'', ''dist/style.css'',
                ''dist/style.js.map'']"
    using a by (auto simp: files_def prims split: option.splits)
  then show ?thesis by blast
qed

text \<open>The script, one \<open>case\<close> for each line that can raise.\<close>

lemma script_eq:
  "script w [] =
    (case environ w ''PINATA_API_KEY'' of
       None \<Rightarrow> (Inl (KeyError ''PINATA_API_KEY''), [])
     | Some k \<Rightarrow>
    (case environ w ''PINATA_SECRET_API_KEY'' of
       None \<Rightarrow> (Inl (KeyError ''PINATA_SECRET_API_KEY''), [])
     | Some s \<Rightarrow>
    (case VERSION w [] of
       (Inl e, tr) \<Rightarrow> (Inl e, tr)
     | (Inr version, tr) \<Rightarrow>
    (case files w version tr of
       (Inl e, tr') \<Rightarrow> (Inl e, tr')
     | (Inr fl, tr') \<Rightarrow>
    (if \<not> stdout_writes w (''Uploading '' @ py_str w version @ '': ''
                    @ str_int (int (length fl)) @ '' files...'')
     then (Inl UnicodeEncodeError, tr')
     else
    (case post w (upload_request k s fl) of
       Inl e \<Rightarrow>
         (Inl e, tr' @ [Print (''Uploading '' @ py_str w version @ '': ''
                    @ str_int (int (length fl)) @ '' files...''), Post (upload_request k s fl)])
     | Inr r \<Rightarrow>
         report w r (tr' @ [Print (''Uploading '' @ py_str w version @ '': ''
                    @ str_int (int (length fl)) @ '' files...''),
                    Post (upload_request k s fl)])))))))"
  by (simp add: script_def PINATA_API_KEY_def PINATA_SECRET_API_KEY_def bind_def
        environ_getitem_def py_print_def requests_post_def
      split: option.splits sum.splits prod.splits)

text \<open>
  A run whose trace holds a request got there through every earlier line: both
  credentials were set, the version was read, the four files were opened, the count was
  printed; what follows the request is the report of its answer, or nothing.
\<close>

lemma script_post:
  assumes "Post q \<in> set (snd (script w []))"
  shows "\<exists>k s version fl tr.
     environ w ''PINATA_API_KEY'' = Some k \<and> environ w ''PINATA_SECRET_API_KEY'' = Some s \<and>
     VERSION w [] = (Inr version, [Open ''package.json'']) \<and>
     files w version [Open ''package.json''] = (Inr fl, tr) \<and>
     stdout_writes w (''Uploading '' @ py_str w version @ '': 4 files...'') \<and>
     q = upload_request k s fl \<and>
     script w [] =
       (case post w q of
          Inl e \<Rightarrow>
            (Inl e, tr @ [Print (''Uploading '' @ py_str w version @ '': 4 files...''), Post q])
        | Inr r \<Rightarrow>
            report w r
              (tr @ [Print (''Uploading '' @ py_str w version @ '': 4 files...''), Post q]))"
proof -
  from assms obtain k where k: "environ w ''PINATA_API_KEY'' = Some k"
    by (cases "environ w ''PINATA_API_KEY''") (auto simp: script_eq)
  from assms k obtain s where s: "environ w ''PINATA_SECRET_API_KEY'' = Some s"
    by (cases "environ w ''PINATA_SECRET_API_KEY''") (auto simp: script_eq)
  obtain rv trv where v: "VERSION w [] = (rv, trv)"
    by (cases "VERSION w []")
  from VERSION_trace [OF v] have trv: "trv = [Open ''package.json'']" by simp
  from assms k s v trv obtain version where version: "rv = Inr version"
    by (cases rv) (auto simp: script_eq)
  obtain rf trf where f: "files w version [Open ''package.json''] = (rf, trf)"
    by (cases "files w version [Open ''package.json'']")
  from files_trace [OF f] obtain ps where trf: "trf = [Open ''package.json''] @ map Open ps"
    by blast
  from assms k s v trv version f trf obtain fl where fl: "rf = Inr fl"
    by (cases rf) (auto simp: script_eq)
  from files_ok [OF f [unfolded fl]] have len: "length fl = 4"
    by auto
  have four: "str_int (int (length fl)) = ''4''"
    by (simp add: len str_int_def str_nat.simps)
  let ?line = "''Uploading '' @ py_str w version @ '': 4 files...''"
  have wr: "stdout_writes w ?line"
  proof (rule ccontr)
    assume "\<not> stdout_writes w ?line"
    with k s v trv version f fl four have "script w [] = (Inl UnicodeEncodeError, trf)"
      by (simp add: script_eq)
    with assms trf show False
      by auto
  qed
  let ?q = "upload_request k s fl"
  let ?tr = "trf @ [Print ?line, Post ?q]"
  have run: "script w [] =
       (case post w ?q of Inl e \<Rightarrow> (Inl e, ?tr) | Inr r \<Rightarrow> report w r ?tr)"
    using k s v trv version f fl four wr
    by (simp add: script_eq split: sum.splits)
  have "q = ?q"
    using assms trf unfolding run
    by (auto simp: report_eq split: sum.splits if_splits)
  with k s v trv version f fl wr run show ?thesis
    by blast
qed

text \<open>The requests of a trace.\<close>

lemma posted_simps [simp]:
  "posted [] = []"
  "posted (Open p # tr) = posted tr"
  "posted (Print l # tr) = posted tr"
  "posted (Post q # tr) = q # posted tr"
  "posted (tr @ tr') = posted tr @ posted tr'"
  by (simp_all add: posted_def)

lemma posted_opens [simp]: "posted (map Open ps) = []"
  by (induction ps) simp_all

lemma posted_VERSION: "VERSION w tr = (res, tr') \<Longrightarrow> posted tr' = posted tr"
  by (drule VERSION_trace) simp

lemma posted_files: "files w version tr = (res, tr') \<Longrightarrow> posted tr' = posted tr"
  by (drule files_trace) auto

lemma posted_report: "posted (snd (report w r tr)) = posted tr"
  by (simp add: report_eq split: sum.splits)

text \<open>A run sends at most one request, and only when every earlier line succeeded.\<close>

lemma posted_script:
  "posted (snd (script w [])) =
    (case environ w ''PINATA_API_KEY'' of
       None \<Rightarrow> []
     | Some k \<Rightarrow>
    (case environ w ''PINATA_SECRET_API_KEY'' of
       None \<Rightarrow> []
     | Some s \<Rightarrow>
    (case VERSION w [] of
       (Inl e, tr) \<Rightarrow> []
     | (Inr version, tr) \<Rightarrow>
    (case files w version tr of
       (Inl e, tr') \<Rightarrow> []
     | (Inr fl, tr') \<Rightarrow>
         (if stdout_writes w (''Uploading '' @ py_str w version @ '': ''
                @ str_int (int (length fl)) @ '' files...'')
          then [upload_request k s fl] else [])))))"
proof (cases "environ w ''PINATA_API_KEY''")
  case None
  then show ?thesis by (simp add: script_eq)
next
  case k: (Some k)
  show ?thesis
  proof (cases "environ w ''PINATA_SECRET_API_KEY''")
    case None
    with k show ?thesis by (simp add: script_eq)
  next
    case s: (Some s)
    obtain rv trv where v: "VERSION w [] = (rv, trv)"
      by (cases "VERSION w []")
    show ?thesis
    proof (cases rv)
      case (Inl e)
      with k s v posted_VERSION [OF v] show ?thesis by (simp add: script_eq)
    next
      case version: (Inr version)
      obtain rf trf where f: "files w version trv = (rf, trf)"
        by (cases "files w version trv")
      have none: "posted trf = []"
        using posted_files [OF f] posted_VERSION [OF v] by simp
      show ?thesis
      proof (cases rf)
        case (Inl e)
        with k s v version f none show ?thesis by (simp add: script_eq)
      next
        case (Inr fl)
        with k s v version f none show ?thesis
          by (simp add: script_eq posted_report split: sum.splits)
      qed
    qed
  qed
qed

text \<open>The lines before the request do not look at the network.\<close>

lemma py_str_cong: "render w1 = render w2 \<Longrightarrow> py_str w1 = py_str w2"
  by (rule ext) (simp add: py_str_def split: json.splits)

lemma VERSION_cong:
  "fs w1 = fs w2 \<Longrightarrow> json_load w1 = json_load w2 \<Longrightarrow> VERSION w1 = VERSION w2"
  by (rule ext) (simp add: VERSION_def prims split: option.splits)

lemma files_cong:
  "fs w1 = fs w2 \<Longrightarrow> render w1 = render w2 \<Longrightarrow> files w1 = files w2"
  by (rule ext)+ (simp add: files_def prims py_str_cong [of w1 w2] split: option.splits)

text \<open>The events of a run are the trace of the script.\<close>

lemma events_main: "events (main w) = snd (script w [])"
  by (simp add: main_def split: prod.splits sum.splits)

lemma raised_main:
  "raised (main w) = (case fst (script w []) of Inl e \<Rightarrow> Some e | Inr _ \<Rightarrow> None)"
  by (simp add: main_def split: prod.splits sum.splits)

section \<open>The request that is built\<close>

text \<open>
  Claim C1. In every run with both credentials set, a manifest that parses to an object
  whose \<^verbatim>\<open>version\<close> is the string \<^verbatim>\<open>1.2.3\<close>, and the four artifacts the script opens
  (\<^verbatim>\<open>dist/cactus.js\<close>, \<^verbatim>\<open>dist/cactus.js.map\<close>, \<^verbatim>\<open>dist/style.css\<close>, \<^verbatim>\<open>dist/style.js.map\<close>)
  present, exactly one request is sent, and its multipart payload has exactly four
  parts, named \<^verbatim>\<open>1.2.3/cactus.js\<close>, \<^verbatim>\<open>1.2.3/cactus.js.map\<close>, \<^verbatim>\<open>1.2.3/style.css\<close> and
  \<^verbatim>\<open>1.2.3/style.css.map\<close>, each under the field name \<^verbatim>\<open>file\<close>.
\<close>

theorem upload_parts_for_version_1_2_3:
  assumes "environ w ''PINATA_API_KEY'' = Some k"
    and "environ w ''PINATA_SECRET_API_KEY'' = Some s"
    and "fs w ''package.json'' = Some txt"
    and "json_load w txt = Inr (JObject items)"
    and "map_of items ''version'' = Some (JString ''1.2.3'')"
    and "fs w ''dist/cactus.js'' = Some c1"
    and "fs w ''dist/cactus.js.map'' = Some c2"
    and "fs w ''dist/style.css'' = Some c3"
    and "fs w ''dist/style.js.map'' = Some c4"
  shows "\<exists>q. posted (events (main w)) = [q] \<and>
     map (\<lambda>item. (field_name item, part_name item)) (req_files q) =
       [(''file'', ''1.2.3/cactus.js''), (''file'', ''1.2.3/cactus.js.map''),
        (''file'', ''1.2.3/style.css''), (''file'', ''1.2.3/style.css.map'')]"
proof -
  have v: "VERSION w [] = (Inr (JString ''1.2.3''), [Open ''package.json''])"
    using assms(3-5) by (simp add: VERSION_def prims)
  obtain fl tr where f: "files w (JString ''1.2.3'') [Open ''package.json''] = (Inr fl, tr)"
    using assms(6-9) by (simp add: files_def prims)
  from files_ok [OF f]
  have names: "map (\<lambda>item. (field_name item, part_name item)) fl =
       [(''file'', ''1.2.3/cactus.js''), (''file'', ''1.2.3/cactus.js.map''),
        (''file'', ''1.2.3/style.css''), (''file'', ''1.2.3/style.css.map'')]"
    by (auto simp: field_name_def part_name_def py_str_def)
  from files_ok [OF f] have len: "length fl = 4"
    by auto
  have wr: "stdout_writes w (''Uploading '' @ py_str w (JString ''1.2.3'') @ '': ''
              @ str_int (int (length fl)) @ '' files...'')"
    by (simp add: stdout_writes_def py_str_def len str_int_def str_nat.simps)
  have "posted (events (main w)) = [upload_request k s fl]"
    using assms(1,2) v f wr by (simp add: events_main posted_script)
  with names show ?thesis
    by (simp add: upload_request_def)
qed

text \<open>The sample world meets every hypothesis of C1.\<close>

theorem upload_parts_for_version_1_2_3_witness:
  \<open>environ sample_world ''PINATA_API_KEY'' = Some ''key'' \<and>
   environ sample_world ''PINATA_SECRET_API_KEY'' = Some ''secret'' \<and>
   fs sample_world ''package.json'' = Some ''{"version": "1.2.3"}'' \<and>
   json_load sample_world ''{"version": "1.2.3"}'' =
     Inr (JObject [(''version'', JString ''1.2.3'')]) \<and>
   map_of [(''version'', JString ''1.2.3'')] ''version'' = Some (JString ''1.2.3'') \<and>
   fs sample_world ''dist/cactus.js'' = Some ''js'' \<and>
   fs sample_world ''dist/cactus.js.map'' = Some ''jsmap'' \<and>
   fs sample_world ''dist/style.css'' = Some ''css'' \<and>
   fs sample_world ''dist/style.js.map'' = Some ''cssmap'' \<and>
   (\<exists>q. posted (events (main sample_world)) = [q] \<and>
     map (\<lambda>item. (field_name item, part_name item)) (req_files q) =
       [(''file'', ''1.2.3/cactus.js''), (''file'', ''1.2.3/cactus.js.map''),
        (''file'', ''1.2.3/style.css''), (''file'', ''1.2.3/style.css.map'')])\<close>
proof -
  have h1: "environ sample_world ''PINATA_API_KEY'' = Some ''key''"
    and h2: "environ sample_world ''PINATA_SECRET_API_KEY'' = Some ''secret''"
    and h3: \<open>fs sample_world ''package.json'' = Some ''{"version": "1.2.3"}''\<close>
    and h4: \<open>json_load sample_world ''{"version": "1.2.3"}'' =
              Inr (JObject [(''version'', JString ''1.2.3'')])\<close>
    and h5: "map_of [(''version'', JString ''1.2.3'')] ''version'' = Some (JString ''1.2.3'')"
    and h6: "fs sample_world ''dist/cactus.js'' = Some ''js''"
    and h7: "fs sample_world ''dist/cactus.js.map'' = Some ''jsmap''"
    and h8: "fs sample_world ''dist/style.css'' = Some ''css''"
    and h9: "fs sample_world ''dist/style.js.map'' = Some ''cssmap''"
    by (simp_all add: sample_world_def sample_parse_def)
  from upload_parts_for_version_1_2_3 [OF h1 h2 h3 h4 h5 h6 h7 h8 h9]
  show ?thesis
    using h1 h2 h3 h4 h5 h6 h7 h8 h9 by (intro conjI)
qed

section \<open>Failures before the upload\<close>

text \<open>
  Claim C2. In every run in which the environment variable \<^verbatim>\<open>PINATA_API_KEY\<close> is not
  set, the run raises (a \<^verbatim>\<open>KeyError\<close>, so the exit status is 1) before any HTTP request
  is issued: the trace holds no request, and indeed no effect at all.
\<close>

theorem missing_api_key_fails_before_network:
  assumes "environ w ''PINATA_API_KEY'' = None"
  shows "raised (main w) = Some (KeyError ''PINATA_API_KEY'') \<and>
     exit_status (main w) = 1 \<and>
     posted (events (main w)) = [] \<and>
     events (main w) = []"
  using assms by (simp add: events_main raised_main exit_status_def script_eq)

text \<open>The world without the key is such a run.\<close>

theorem missing_api_key_fails_before_network_witness:
  "environ world_without_api_key ''PINATA_API_KEY'' = None \<and>
   raised (main world_without_api_key) = Some (KeyError ''PINATA_API_KEY'') \<and>
   exit_status (main world_without_api_key) = 1 \<and>
   posted (events (main world_without_api_key)) = [] \<and>
   events (main world_without_api_key) = []"
proof -
  have h: "environ world_without_api_key ''PINATA_API_KEY'' = None"
    by (simp add: world_without_api_key_def)
  from missing_api_key_fails_before_network [OF h] show ?thesis
    using h by (intro conjI) simp_all
qed

text \<open>
  Claim C3. In every run in which the manifest parses to a JSON object with no
  \<^verbatim>\<open>version\<close> key, the run raises before any of the four artifact files is opened and
  before the request is built: none of the four paths is among the opened paths and no
  request is sent. When both credentials are set, the run opens the manifest, raises
  \<^verbatim>\<open>KeyError('version')\<close> and has no other effect.
\<close>

theorem missing_version_fails_before_files:
  assumes "fs w ''package.json'' = Some txt"
    and "json_load w txt = Inr (JObject items)"
    and "map_of items ''version'' = None"
  shows "raised (main w) \<noteq> None \<and>
     exit_status (main w) = 1 \<and>
     set (opened (events (main w))) \<inter>
       {''dist/cactus.js'', ''dist/cactus.js.map'', ''dist/style.css'', ''dist/style.js.map''} = {} \<and>
     posted (events (main w)) = [] \<and>
     (environ w ''PINATA_API_KEY'' \<noteq> None \<longrightarrow> environ w ''PINATA_SECRET_API_KEY'' \<noteq> None \<longrightarrow>
        main w = \<lparr>events = [Open ''package.json''], raised = Some (KeyError ''version'')\<rparr>)"
proof -
  have v: "VERSION w [] = (Inl (KeyError ''version''), [Open ''package.json''])"
    using assms by (simp add: VERSION_def prims)
  have run: "script w [] = (Inl (KeyError ''PINATA_API_KEY''), []) \<or>
        script w [] = (Inl (KeyError ''PINATA_SECRET_API_KEY''), []) \<or>
        script w [] = (Inl (KeyError ''version''), [Open ''package.json''])"
    using v by (simp add: script_eq split: option.splits)
  have full: "environ w ''PINATA_API_KEY'' \<noteq> None \<longrightarrow>
        environ w ''PINATA_SECRET_API_KEY'' \<noteq> None \<longrightarrow>
        script w [] = (Inl (KeyError ''version''), [Open ''package.json''])"
    using v by (auto simp: script_eq)
  from run full show ?thesis
    by (auto simp: main_def exit_status_def opened_def)
qed

text \<open>The world whose manifest has only a name is such a run, with both credentials set.\<close>

theorem missing_version_fails_before_files_witness:
  \<open>fs world_without_version ''package.json'' = Some ''{"name": "cactus-client"}'' \<and>
   json_load world_without_version ''{"name": "cactus-client"}'' =
     Inr (JObject [(''name'', JString ''cactus-client'')]) \<and>
   map_of [(''name'', JString ''cactus-client'')] ''version'' = None \<and>
   environ world_without_version ''PINATA_API_KEY'' \<noteq> None \<and>
   environ world_without_version ''PINATA_SECRET_API_KEY'' \<noteq> None \<and>
   raised (main world_without_version) \<noteq> None \<and>
   exit_status (main world_without_version) = 1 \<and>
   set (opened (events (main world_without_version))) \<inter>
     {''dist/cactus.js'', ''dist/cactus.js.map'', ''dist/style.css'', ''dist/style.js.map''} = {} \<and>
   posted (events (main world_without_version)) = [] \<and>
   main world_without_version =
     \<lparr>events = [Open ''package.json''], raised = Some (KeyError ''version'')\<rparr>\<close>
proof -
  have h1: \<open>fs world_without_version ''package.json'' = Some ''{"name": "cactus-client"}''\<close>
    and h2: \<open>json_load world_without_version ''{"name": "cactus-client"}'' =
               Inr (JObject [(''name'', JString ''cactus-client'')])\<close>
    and h3: "map_of [(''name'', JString ''cactus-client'')] ''version'' = None"
    and h4: "environ world_without_version ''PINATA_API_KEY'' \<noteq> None"
    and h5: "environ world_without_version ''PINATA_SECRET_API_KEY'' \<noteq> None"
    by (simp_all add: world_without_version_def sample_world_def sample_parse_def)
  from missing_version_fails_before_files [OF h1 h2 h3] h4 h5 show ?thesis
    using h1 h2 h3 by (intro conjI) blast+
qed

section \<open>Paths opened and lines printed\<close>

lemma printed_simps [simp]:
  "printed [] = []"
  "printed (Open p # tr) = printed tr"
  "printed (Print l # tr) = l # printed tr"
  "printed (Post q # tr) = printed tr"
  "printed (tr @ tr') = printed tr @ printed tr'"
  by (simp_all add: printed_def)

lemma opened_simps [simp]:
  "opened [] = []"
  "opened (Open p # tr) = p # opened tr"
  "opened (Print l # tr) = opened tr"
  "opened (Post q # tr) = opened tr"
  "opened (tr @ tr') = opened tr @ opened tr'"
  by (simp_all add: opened_def)

lemma opened_report: "opened (snd (report w r tr)) = opened tr"
  by (simp add: report_eq split: sum.splits)

lemma files_opened:
  "files w version tr = (res, tr') \<Longrightarrow> ''package.json'' \<notin> set (opened tr') - set (opened tr)
      \<and> count_list (opened tr') ''package.json'' = count_list (opened tr) ''package.json''"
  by (auto simp: files_def prims split: option.splits)

lemma manifest_opened_once: "count_list (opened (snd (script w []))) ''package.json'' \<le> 1"
proof -
  obtain rv trv where v: "VERSION w [] = (rv, trv)"
    by (cases "VERSION w []")
  from VERSION_trace [OF v] have trv: "trv = [Open ''package.json'']" by simp
  have f: "\<And>version rf trf. files w version trv = (rf, trf) \<Longrightarrow>
      count_list (opened trf) ''package.json'' = 1"
    using files_opened [of w _ trv] by (simp add: trv)
  show ?thesis
    unfolding script_eq
    by (simp add: v trv f opened_report split: option.splits sum.splits prod.splits)
qed

section \<open>The report of the answer\<close>

text \<open>
  Claim C4, as amended. For every answer received whose body parses as JSON, when
  standard output writes the status line and Python's rendering of the parsed body: the
  run prints \<^verbatim>\<open>Success!\<close> when the status code is 200 and \<^verbatim>\<open>Error: \<close> followed by the
  status code in decimal when it is any other value, then prints the rendering of the
  parsed body, and ends without raising, with exit status 0. Both conditions on standard
  output are hypotheses; in this model the first always holds, the status line being
  plain ASCII.
\<close>

theorem report_for_json_body:
  assumes "Post q \<in> set (events (main w))"
    and "post w q = Inr r"
    and "response_json w (body r) = Inr v"
    and "stdout_writes w (if status_code r = 200 then ''Success!''
                          else ''Error: '' @ str_int (status_code r))"
    and "stdout_writes w (py_str w v)"
  shows "raised (main w) = None \<and>
     exit_status (main w) = 0 \<and>
     (\<exists>pre. events (main w) =
        pre @ [Post q,
               Print (if status_code r = 200 then ''Success!''
                      else ''Error: '' @ str_int (status_code r)),
               Print (py_str w v)])"
proof -
  from assms(1) have "Post q \<in> set (snd (script w []))"
    by (simp add: events_main)
  from script_post [OF this] assms(2,3,5) obtain tr where
    "script w [] = (Inr (), tr @ [Post q, Print (status_line r), Print (py_str w v)])"
    by (auto simp: report_eq)
  then show ?thesis
    by (simp add: main_def exit_status_def status_line_def)
qed

text \<open>The world that answers 500 with a JSON body: \<^verbatim>\<open>Error: 500\<close>, then the parsed body.\<close>

theorem report_for_json_body_witness:
  \<open>Post sample_request \<in> set (events (main world_error_json)) \<and>
   post world_error_json sample_request =
     Inr \<lparr>status_code = 500, body = ''{"error": "boom"}''\<rparr> \<and>
   response_json world_error_json ''{"error": "boom"}'' =
     Inr (JObject [(''error'', JString ''boom'')]) \<and>
   stdout_writes world_error_json ''Error: 500'' \<and>
   stdout_writes world_error_json ''{'error': 'boom'}'' \<and>
   raised (main world_error_json) = None \<and>
   exit_status (main world_error_json) = 0 \<and>
   (\<exists>pre. events (main world_error_json) =
      pre @ [Post sample_request, Print ''Error: 500'', Print ''{'error': 'boom'}''])\<close>
proof -
  have r: \<open>py_str world_error_json (JObject [(''error'', JString ''boom'')]) =
      ''{'error': 'boom'}''\<close>
    by (simp add: py_str_def world_error_json_def sample_world_def sample_render_def)
  have h1: "Post sample_request \<in> set (events (main world_error_json))"
    by (simp add: events_main script_eq VERSION_def files_def report_eq prims sample_defs
        world_error_json_def py_str_def stdout_writes_def str_int_def str_nat.simps)
  have h2: \<open>post world_error_json sample_request =
      Inr \<lparr>status_code = 500, body = ''{"error": "boom"}''\<rparr>\<close>
    by (simp add: world_error_json_def)
  have h3: \<open>response_json world_error_json
        (body \<lparr>status_code = 500, body = ''{"error": "boom"}''\<rparr>) =
      Inr (JObject [(''error'', JString ''boom'')])\<close>
    by (simp add: world_error_json_def sample_world_def sample_parse_def surrogate_text_def)
  have h4: \<open>stdout_writes world_error_json
      (py_str world_error_json (JObject [(''error'', JString ''boom'')]))\<close>
    by (simp add: r stdout_writes_def)
  have n: "str_int 500 = ''500''"
    by (simp add: str_int_def str_nat.simps)
  have h5: "stdout_writes world_error_json
      (if status_code \<lparr>status_code = 500, body = ''{\"error\": \"boom\"}''\<rparr> = 200
       then ''Success!''
       else ''Error: '' @
            str_int (status_code \<lparr>status_code = 500, body = ''{\"error\": \"boom\"}''\<rparr>))"
    by (simp add: n stdout_writes_def)
  from report_for_json_body [OF h1 h2 h3 h5 h4] show ?thesis
    using h1 h2 h3 h4 h5 by (simp add: r n)
qed

text \<open>
  Claim C4 as stated (every answer, whatever its body) fails: when the service answers
  500 with the body \<^verbatim>\<open>Internal Server Error\<close>, the run prints \<^verbatim>\<open>Error: 500\<close> and then raises in
  \<^verbatim>\<open>r.json()\<close>; the body is not printed.
\<close>

theorem status_500_text_body_counterexample:
  "post world_error_text sample_request =
     Inr \<lparr>status_code = 500, body = ''Internal Server Error''\<rparr> \<and>
   main world_error_text =
     \<lparr>events = [Open ''package.json'', Open ''dist/cactus.js'', Open ''dist/cactus.js.map'',
                Open ''dist/style.css'', Open ''dist/style.js.map'',
                Print ''Uploading 1.2.3: 4 files...'', Post sample_request,
                Print ''Error: 500''],
      raised = Some ValueError\<rparr>"
  by (simp add: main_def script_eq VERSION_def files_def report_eq prims sample_defs
      world_error_text_def py_str_def status_line_def str_int_def str_nat.simps
      stdout_writes_def surrogate_text_def)

text \<open>
  Nor is parsing as JSON enough: when the service answers 200 with the JSON text of a
  lone surrogate, the body parses to a string that standard output cannot encode, and
  the run prints \<^verbatim>\<open>Success!\<close> and then raises in \<^verbatim>\<open>print\<close>.
\<close>

lemma unencodable_body_raises_in_print:
  "post world_surrogate_body sample_request =
     Inr \<lparr>status_code = 200, body = surrogate_text\<rparr> \<and>
   response_json world_surrogate_body surrogate_text = Inr (JString lone_surrogate) \<and>
   main world_surrogate_body =
     \<lparr>events = [Open ''package.json'', Open ''dist/cactus.js'', Open ''dist/cactus.js.map'',
                Open ''dist/style.css'', Open ''dist/style.js.map'',
                Print ''Uploading 1.2.3: 4 files...'', Post sample_request,
                Print ''Success!''],
      raised = Some UnicodeEncodeError\<rparr>"
  by (simp add: main_def script_eq VERSION_def files_def report_eq prims sample_defs
      world_surrogate_body_def py_str_def status_line_def str_int_def str_nat.simps
      stdout_writes_def surrogate_text_def lone_surrogate_def)

text \<open>
  Claim C10. The body is only ever printed through \<^verbatim>\<open>r.json()\<close>. So for every answer
  whose body does not parse as JSON, whatever the status code (200 included), the run
  raises the parser's exception right after the status line: the trace ends with the
  request and the line \<^verbatim>\<open>Success!\<close> or \<^verbatim>\<open>Error: {status}\<close>, the only line printed
  before them is the \<^verbatim>\<open>Uploading\<close> line, and the exit status is 1.
\<close>

theorem non_json_body_raises_after_status_line:
  assumes "Post q \<in> set (events (main w))"
    and "post w q = Inr r"
    and "response_json w (body r) = Inl e"
  shows "raised (main w) = Some e \<and>
     exit_status (main w) = 1 \<and>
     (\<exists>pre version.
        events (main w) =
          pre @ [Post q,
                 Print (if status_code r = 200 then ''Success!''
                        else ''Error: '' @ str_int (status_code r))] \<and>
        printed pre = [''Uploading '' @ py_str w version @ '': 4 files...''])"
proof -
  from assms(1) have "Post q \<in> set (snd (script w []))"
    by (simp add: events_main)
  from script_post [OF this] assms(2,3) obtain version fl tr where
    f: "files w version [Open ''package.json''] = (Inr fl, tr)" and
    run: "script w [] = (Inl e,
       tr @ [Print (''Uploading '' @ py_str w version @ '': 4 files...''), Post q,
             Print (status_line r)])"
    by (auto simp: report_eq)
  from files_ok [OF f] have "printed tr = []"
    by auto
  with run have "events (main w) =
      (tr @ [Print (''Uploading '' @ py_str w version @ '': 4 files...'')]) @
         [Post q, Print (if status_code r = 200 then ''Success!''
                        else ''Error: '' @ str_int (status_code r))] \<and>
      printed (tr @ [Print (''Uploading '' @ py_str w version @ '': 4 files...'')]) =
         [''Uploading '' @ py_str w version @ '': 4 files...'']"
    by (simp add: main_def status_line_def)
  then have "\<exists>pre version.
        events (main w) =
          pre @ [Post q,
                 Print (if status_code r = 200 then ''Success!''
                        else ''Error: '' @ str_int (status_code r))] \<and>
        printed pre = [''Uploading '' @ py_str w version @ '': 4 files...'']"
    by blast
  with run show ?thesis
    by (simp add: raised_main exit_status_def)
qed

text \<open>The world that answers 200 with the body \<^verbatim>\<open>OK\<close>.\<close>

theorem non_json_body_raises_after_status_line_witness:
  "Post sample_request \<in> set (events (main world_ok_text)) \<and>
   post world_ok_text sample_request = Inr \<lparr>status_code = 200, body = ''OK''\<rparr> \<and>
   response_json world_ok_text ''OK'' = Inl ValueError \<and>
   raised (main world_ok_text) = Some ValueError \<and>
   exit_status (main world_ok_text) = 1 \<and>
   (\<exists>pre version.
      events (main world_ok_text) = pre @ [Post sample_request, Print ''Success!''] \<and>
      printed pre = [''Uploading '' @ py_str world_ok_text version @ '': 4 files...''])"
proof -
  have h1: "Post sample_request \<in> set (events (main world_ok_text))"
    by (simp add: events_main script_eq VERSION_def files_def report_eq prims sample_defs
        world_ok_text_def py_str_def stdout_writes_def str_int_def str_nat.simps)
  have h2: "post world_ok_text sample_request = Inr \<lparr>status_code = 200, body = ''OK''\<rparr>"
    by (simp add: world_ok_text_def)
  have h3: "response_json world_ok_text (body \<lparr>status_code = 200, body = ''OK''\<rparr>) =
      Inl ValueError"
    by (simp add: world_ok_text_def sample_world_def sample_parse_def surrogate_text_def)
  from non_json_body_raises_after_status_line [OF h1 h2 h3] show ?thesis
    using h1 h2 h3 by simp
qed

text \<open>
  Claim C5. The status code does not change how the run ends. Compared with the run in
  which the same answer carries status 200, a run raises the same exception or none,
  exits with the same status, and has the same trace except that the status line reads
  \<^verbatim>\<open>Error: \<close> followed by the code where the other reads \<^verbatim>\<open>Success!\<close>.
\<close>

theorem status_does_not_change_termination:
  "raised (main w) = raised (main (with_status_200 w)) \<and>
   exit_status (main w) = exit_status (main (with_status_200 w)) \<and>
   list_all2 (\<lambda>e e'. e = e' \<or> (\<exists>c. e = Print (''Error: '' @ str_int c) \<and> e' = Print ''Success!''))
     (events (main w)) (events (main (with_status_200 w)))"
proof -
  let ?w = "with_status_200 w"
  define R where
    "R = (\<lambda>e e'. e = e' \<or> (\<exists>c. e = Print (''Error: '' @ str_int c) \<and> e' = Print ''Success!''))"
  have e: "environ ?w = environ w"
    by (simp add: with_status_200_def)
  have v: "VERSION ?w = VERSION w"
    by (rule VERSION_cong) (simp_all add: with_status_200_def)
  have f: "files ?w = files w"
    by (rule files_cong) (simp_all add: with_status_200_def)
  have p: "py_str ?w = py_str w"
    by (rule py_str_cong) (simp add: with_status_200_def)
  have j: "response_json ?w = response_json w"
    by (simp add: with_status_200_def)
  have sw: "stdout_writes ?w = stdout_writes w"
    by (rule ext) (simp add: stdout_writes_def with_status_200_def)
  have po: "\<And>q. post ?w q =
      (case post w q of Inl e \<Rightarrow> Inl e | Inr r \<Rightarrow> Inr (r\<lparr>status_code := 200\<rparr>))"
    by (simp add: with_status_200_def)
  have same: "\<And>tr. list_all2 R tr tr"
    by (rule list_all2_refl) (simp add: R_def)
  have rfl: "\<And>e. R e e"
    by (simp add: R_def)
  have line: "\<And>r. R (Print (status_line r)) (Print ''Success!'')"
    by (auto simp: R_def status_line_def)
  have rep: "\<And>r tr. fst (report ?w (r\<lparr>status_code := 200\<rparr>) tr) = fst (report w r tr) \<and>
      list_all2 R (snd (report w r tr)) (snd (report ?w (r\<lparr>status_code := 200\<rparr>) tr))"
    by (auto simp: report_eq p j sw status_line_def [of "_\<lparr>status_code := 200\<rparr>"] same
        line rfl intro!: list_all2_appendI split: sum.splits)
  have "fst (script ?w []) = fst (script w []) \<and>
        list_all2 R (snd (script w [])) (snd (script ?w []))"
    unfolding script_eq [of ?w] script_eq [of w] e v f p po sw
    by (simp add: same rep split: option.splits sum.splits prod.splits)
  then show ?thesis
    unfolding R_def by (simp add: events_main raised_main exit_status_def)
qed

section \<open>The request\<close>

text \<open>A run whose trace holds a request sent that request and no other.\<close>

lemma posted_of_post:
  assumes "Post q \<in> set (events (main w))"
  shows "posted (events (main w)) = [q]"
proof -
  from assms have "Post q \<in> set (snd (script w []))"
    by (simp add: events_main)
  from script_post [OF this] obtain version fl tr where
    f: "files w version [Open ''package.json''] = (Inr fl, tr)" and
    run: "script w [] =
       (case post w q of
          Inl e \<Rightarrow>
            (Inl e, tr @ [Print (''Uploading '' @ py_str w version @ '': 4 files...''), Post q])
        | Inr r \<Rightarrow>
            report w r
              (tr @ [Print (''Uploading '' @ py_str w version @ '': 4 files...''), Post q]))"
    by blast
  from posted_files [OF f] have "posted tr = []"
    by simp
  then show ?thesis
    unfolding events_main run by (simp add: posted_report split: sum.splits)
qed

text \<open>
  Claim C6. Every run that reaches the network call sends exactly one request, a POST to
  \<^verbatim>\<open>https://api.pinata.cloud/pinning/pinFileToIPFS\<close>, whose headers are \<^verbatim>\<open>pinata_api_key\<close> with the value of the
  environment variable \<^verbatim>\<open>PINATA_API_KEY\<close> and \<^verbatim>\<open>pinata_secret_api_key\<close> with the value of
  \<^verbatim>\<open>PINATA_SECRET_API_KEY\<close>, and whose multipart payload is the list of four items built
  by \<^verbatim>\<open>files\<close>.
\<close>

theorem single_post_to_pinning_endpoint:
  assumes "Post q \<in> set (events (main w))"
  shows "posted (events (main w)) = [q] \<and>
     url q = ''https://api.pinata.cloud/pinning/pinFileToIPFS'' \<and>
     (\<exists>k s. environ w ''PINATA_API_KEY'' = Some k \<and>
            environ w ''PINATA_SECRET_API_KEY'' = Some s \<and>
            headers q = [(''pinata_api_key'', k), (''pinata_secret_api_key'', s)]) \<and>
     (\<exists>version tr.
        VERSION w [] = (Inr version, [Open ''package.json'']) \<and>
        files w version [Open ''package.json''] = (Inr (req_files q), tr)) \<and>
     length (req_files q) = 4"
proof -
  from assms have "Post q \<in> set (snd (script w []))"
    by (simp add: events_main)
  from script_post [OF this] obtain k s version fl tr where
    k: "environ w ''PINATA_API_KEY'' = Some k" and
    s: "environ w ''PINATA_SECRET_API_KEY'' = Some s" and
    v: "VERSION w [] = (Inr version, [Open ''package.json''])" and
    f: "files w version [Open ''package.json''] = (Inr fl, tr)" and
    q: "q = upload_request k s fl"
    by blast
  have one: "posted (events (main w)) = [q]"
    using assms by (rule posted_of_post)
  from files_ok [OF f] have len: "length fl = 4"
    by auto
  from k s have hd: "\<exists>k s. environ w ''PINATA_API_KEY'' = Some k \<and>
            environ w ''PINATA_SECRET_API_KEY'' = Some s \<and>
            headers q = [(''pinata_api_key'', k), (''pinata_secret_api_key'', s)]"
    by (simp add: q upload_request_def)
  from v f have built: "\<exists>version tr.
        VERSION w [] = (Inr version, [Open ''package.json'']) \<and>
        files w version [Open ''package.json''] = (Inr (req_files q), tr)"
    by (auto simp: q upload_request_def)
  from one len hd built show ?thesis
    by (simp add: q upload_request_def)
qed

text \<open>The sample world reaches the network call.\<close>

theorem single_post_to_pinning_endpoint_witness:
  "Post sample_request \<in> set (events (main sample_world)) \<and>
   posted (events (main sample_world)) = [sample_request] \<and>
   url sample_request = ''https://api.pinata.cloud/pinning/pinFileToIPFS'' \<and>
   (\<exists>k s. environ sample_world ''PINATA_API_KEY'' = Some k \<and>
          environ sample_world ''PINATA_SECRET_API_KEY'' = Some s \<and>
          headers sample_request = [(''pinata_api_key'', k), (''pinata_secret_api_key'', s)]) \<and>
   (\<exists>version tr.
      VERSION sample_world [] = (Inr version, [Open ''package.json'']) \<and>
      files sample_world version [Open ''package.json''] = (Inr (req_files sample_request), tr)) \<and>
   length (req_files sample_request) = 4"
proof -
  have h: "Post sample_request \<in> set (events (main sample_world))"
    by (simp add: events_main script_eq VERSION_def files_def report_eq prims sample_defs
        py_str_def stdout_writes_def str_int_def str_nat.simps)
  from single_post_to_pinning_endpoint [OF h] show ?thesis
    using h by (intro conjI) blast+
qed

text \<open>A request that is sent is built from the credentials, the version and the files.\<close>

lemma posted_built:
  assumes "q \<in> set (posted (events (main w)))"
  shows "\<exists>k s version tr fl tr'.
     environ w ''PINATA_API_KEY'' = Some k \<and> environ w ''PINATA_SECRET_API_KEY'' = Some s \<and>
     VERSION w [] = (Inr version, tr) \<and> files w version tr = (Inr fl, tr') \<and>
     q = upload_request k s fl"
proof -
  from assms obtain k where k: "environ w ''PINATA_API_KEY'' = Some k"
    by (cases "environ w ''PINATA_API_KEY''") (auto simp: events_main posted_script)
  from assms k obtain s where s: "environ w ''PINATA_SECRET_API_KEY'' = Some s"
    by (cases "environ w ''PINATA_SECRET_API_KEY''") (auto simp: events_main posted_script)
  obtain rv tr where v: "VERSION w [] = (rv, tr)"
    by (cases "VERSION w []")
  from assms k s v obtain version where version: "rv = Inr version"
    by (cases rv) (auto simp: events_main posted_script)
  obtain rf tr' where f: "files w version tr = (rf, tr')"
    by (cases "files w version tr")
  from assms k s v version f obtain fl where fl: "rf = Inr fl"
    by (cases rf) (auto simp: events_main posted_script)
  from assms k s v version f fl have "q = upload_request k s fl"
    by (auto simp: events_main posted_script split: if_splits)
  with k s v version f fl show ?thesis
    by blast
qed

text \<open>
  Claim C7. Request construction is deterministic and does not depend on the network.
  Take two runs with the same environment variables, the same files (manifest and
  artifacts) and the same Python, whatever the network and the answer are. Any request
  one of them sends is the request the other sends, if it sends one. When standard
  output is the same too, both send the same requests, with the same part names and
  content types.
\<close>

theorem request_construction_deterministic:
  assumes "environ w1 = environ w2"
    and "fs w1 = fs w2"
    and "json_load w1 = json_load w2"
    and "render w1 = render w2"
  shows "(\<forall>q1 \<in> set (posted (events (main w1))).
            \<forall>q2 \<in> set (posted (events (main w2))). q1 = q2) \<and>
     (stdout_accepts w1 = stdout_accepts w2 \<longrightarrow>
        posted (events (main w1)) = posted (events (main w2)) \<and>
        map (\<lambda>q. map (\<lambda>item. (part_name item, content_type item)) (req_files q))
            (posted (events (main w1))) =
        map (\<lambda>q. map (\<lambda>item. (part_name item, content_type item)) (req_files q))
            (posted (events (main w2))))"
proof (intro conjI impI)
  have v: "VERSION w1 = VERSION w2"
    using assms(2,3) by (rule VERSION_cong)
  have f: "files w1 = files w2"
    using assms(2,4) by (rule files_cong)
  have p: "py_str w1 = py_str w2"
    using assms(4) by (rule py_str_cong)
  show "\<forall>q1 \<in> set (posted (events (main w1))).
            \<forall>q2 \<in> set (posted (events (main w2))). q1 = q2"
  proof (intro ballI)
    fix q1 q2
    assume "q1 \<in> set (posted (events (main w1)))"
    from posted_built [OF this] obtain k s version tr fl tr' where
      a1: "environ w1 ''PINATA_API_KEY'' = Some k" and
    a2: "environ w1 ''PINATA_SECRET_API_KEY'' = Some s" and
    a3: "VERSION w1 [] = (Inr version, tr)" and
    a4: "files w1 version tr = (Inr fl, tr')" and
    a5: "q1 = upload_request k s fl"
      by blast
    assume "q2 \<in> set (posted (events (main w2)))"
    from posted_built [OF this] obtain k2 s2 version2 tr2 fl2 tr2' where
    b1: "environ w2 ''PINATA_API_KEY'' = Some k2" and
    b2: "environ w2 ''PINATA_SECRET_API_KEY'' = Some s2" and
    b3: "VERSION w2 [] = (Inr version2, tr2)" and
    b4: "files w2 version2 tr2 = (Inr fl2, tr2')" and
    b5: "q2 = upload_request k2 s2 fl2"
      by blast
    from a1 a2 b1 b2 have ks: "k = k2 \<and> s = s2"
      by (simp add: assms(1))
    from a3 b3 have vt: "version = version2 \<and> tr = tr2"
      by (simp add: v)
    from vt a4 b4 have "fl = fl2"
      by (simp add: f)
    with ks a5 b5 show "q1 = q2"
      by simp
  qed
  assume "stdout_accepts w1 = stdout_accepts w2"
  then have sw: "stdout_writes w1 = stdout_writes w2"
    by (intro ext) (simp add: stdout_writes_def)
  have same: "posted (events (main w1)) = posted (events (main w2))"
    unfolding events_main posted_script v f p sw assms(1) by (rule refl)
  then show "posted (events (main w1)) = posted (events (main w2))" .
  from same show
    "map (\<lambda>q. map (\<lambda>item. (part_name item, content_type item)) (req_files q))
         (posted (events (main w1))) =
     map (\<lambda>q. map (\<lambda>item. (part_name item, content_type item)) (req_files q))
         (posted (events (main w2)))"
    by simp
qed

text \<open>
  The sample world and the world whose network fails differ in the network only, and
  both send the sample request.
\<close>

theorem request_construction_deterministic_witness:
  "environ sample_world = environ world_offline \<and>
   fs sample_world = fs world_offline \<and>
   json_load sample_world = json_load world_offline \<and>
   render sample_world = render world_offline \<and>
   stdout_accepts sample_world = stdout_accepts world_offline \<and>
   post sample_world sample_request \<noteq> post world_offline sample_request \<and>
   sample_request \<in> set (posted (events (main sample_world))) \<and>
   sample_request \<in> set (posted (events (main world_offline))) \<and>
   posted (events (main sample_world)) = posted (events (main world_offline)) \<and>
   map (\<lambda>q. map (\<lambda>item. (part_name item, content_type item)) (req_files q))
       (posted (events (main sample_world))) =
   map (\<lambda>q. map (\<lambda>item. (part_name item, content_type item)) (req_files q))
       (posted (events (main world_offline)))"
proof -
  have h1: "environ sample_world = environ world_offline"
    and h2: "fs sample_world = fs world_offline"
    and h3: "json_load sample_world = json_load world_offline"
    and h4: "render sample_world = render world_offline"
    and h5: "stdout_accepts sample_world = stdout_accepts world_offline"
    and d: "post sample_world sample_request \<noteq> post world_offline sample_request"
    by (simp_all add: world_offline_def sample_world_def)
  have m1: "sample_request \<in> set (posted (events (main sample_world)))"
    by (simp add: events_main posted_script VERSION_def files_def prims sample_defs
        py_str_def stdout_writes_def str_int_def str_nat.simps)
  have m2: "sample_request \<in> set (posted (events (main world_offline)))"
    by (simp add: events_main posted_script VERSION_def files_def prims sample_defs
        world_offline_def py_str_def stdout_writes_def str_int_def str_nat.simps)
  from request_construction_deterministic [OF h1 h2 h3 h4] h5
  have "posted (events (main sample_world)) = posted (events (main world_offline)) \<and>
     map (\<lambda>q. map (\<lambda>item. (part_name item, content_type item)) (req_files q))
         (posted (events (main sample_world))) =
     map (\<lambda>q. map (\<lambda>item. (part_name item, content_type item)) (req_files q))
         (posted (events (main world_offline)))"
    by blast
  with h1 h2 h3 h4 h5 d m1 m2 show ?thesis
    by (intro conjI) blast+
qed

text \<open>
  Claim C8. In a run the manifest is opened at most once. When the run sends its
  request, the manifest was opened exactly once, the version is the value of the key
  \<^verbatim>\<open>version\<close> of the object the manifest parsed to, that one version prefixes all four
  part names, and the payload is the list that \<^verbatim>\<open>files\<close> built from the four
  artifacts: the same list whose length the \<^verbatim>\<open>Uploading\<close> line reports, sent as it was
  built, in the only request of the run.
\<close>

theorem version_read_once_items_fixed:
  "count_list (opened (events (main w))) ''package.json'' \<le> 1 \<and>
   (Post q \<in> set (events (main w)) \<longrightarrow>
     (\<exists>version txt items c1 c2 c3 c4 tr.
        fs w ''package.json'' = Some txt \<and>
        json_load w txt = Inr (JObject items) \<and>
        map_of items ''version'' = Some version \<and>
        VERSION w [] = (Inr version, [Open ''package.json'']) \<and>
        opened (events (main w)) =
          [''package.json'', ''dist/cactus.js'', ''dist/cactus.js.map'', ''dist/style.css'',
           ''dist/style.js.map''] \<and>
        files w version [Open ''package.json''] = (Inr (req_files q), tr) \<and>
        req_files q =
          [(''file'', (py_str w version @ ''/cactus.js'',
                      FileObj ''dist/cactus.js'' c1, ''text/javascript'')),
           (''file'', (py_str w version @ ''/cactus.js.map'',
                      FileObj ''dist/cactus.js.map'' c2, ''application/json'')),
           (''file'', (py_str w version @ ''/style.css'',
                      FileObj ''dist/style.css'' c3, ''text/css'')),
           (''file'', (py_str w version @ ''/style.css.map'',
                      FileObj ''dist/style.js.map'' c4, ''application/json''))] \<and>
        hd (printed (events (main w))) = ''Uploading '' @ py_str w version @ '': 4 files...'' \<and>
        posted (events (main w)) = [q]))"
proof (intro conjI impI)
  show "count_list (opened (events (main w))) ''package.json'' \<le> 1"
    using manifest_opened_once [of w] by (simp add: events_main)
next
  assume reached: "Post q \<in> set (events (main w))"
  then have "Post q \<in> set (snd (script w []))"
    by (simp add: events_main)
  from script_post [OF this] obtain k s version fl tr where
    k: "environ w ''PINATA_API_KEY'' = Some k" and
    s: "environ w ''PINATA_SECRET_API_KEY'' = Some s" and
    v: "VERSION w [] = (Inr version, [Open ''package.json''])" and
    f: "files w version [Open ''package.json''] = (Inr fl, tr)" and
    q: "q = upload_request k s fl" and
    run: "script w [] =
       (case post w q of
          Inl e \<Rightarrow>
            (Inl e, tr @ [Print (''Uploading '' @ py_str w version @ '': 4 files...''), Post q])
        | Inr r \<Rightarrow>
            report w r
              (tr @ [Print (''Uploading '' @ py_str w version @ '': 4 files...''), Post q]))"
    by blast
  from files_ok [OF f] obtain c1 c2 c3 c4 where
    fl: "fl = [(''file'', (py_str w version @ ''/cactus.js'',
                      FileObj ''dist/cactus.js'' c1, ''text/javascript'')),
           (''file'', (py_str w version @ ''/cactus.js.map'',
                      FileObj ''dist/cactus.js.map'' c2, ''application/json'')),
           (''file'', (py_str w version @ ''/style.css'',
                      FileObj ''dist/style.css'' c3, ''text/css'')),
           (''file'', (py_str w version @ ''/style.css.map'',
                      FileObj ''dist/style.js.map'' c4, ''application/json''))]" and
    tr: "tr = [Open ''package.json''] @ [Open ''dist/cactus.js'', Open ''dist/cactus.js.map'',
                   Open ''dist/style.css'', Open ''dist/style.js.map'']"
    by blast
  have rq: "req_files q = fl"
    by (simp add: q upload_request_def)
  have op: "opened (events (main w)) =
          [''package.json'', ''dist/cactus.js'', ''dist/cactus.js.map'', ''dist/style.css'',
           ''dist/style.js.map'']"
    unfolding events_main run
    by (simp add: tr report_eq split: sum.splits)
  have pr: "hd (printed (events (main w))) = ''Uploading '' @ py_str w version @ '': 4 files...''"
    unfolding events_main run
    by (simp add: tr report_eq split: sum.splits)
  have one: "posted (events (main w)) = [q]"
    using reached by (rule posted_of_post)
  from VERSION_ok [OF v] obtain manifest items where
    m: "fs w ''package.json'' = Some manifest \<and>
        json_load w manifest = Inr (JObject items) \<and>
        map_of items ''version'' = Some version"
    by blast
  from m v op f fl pr one rq
  show "\<exists>version txt items c1 c2 c3 c4 tr.
        fs w ''package.json'' = Some txt \<and>
        json_load w txt = Inr (JObject items) \<and>
        map_of items ''version'' = Some version \<and>
        VERSION w [] = (Inr version, [Open ''package.json'']) \<and>
        opened (events (main w)) =
          [''package.json'', ''dist/cactus.js'', ''dist/cactus.js.map'', ''dist/style.css'',
           ''dist/style.js.map''] \<and>
        files w version [Open ''package.json''] = (Inr (req_files q), tr) \<and>
        req_files q =
          [(''file'', (py_str w version @ ''/cactus.js'',
                      FileObj ''dist/cactus.js'' c1, ''text/javascript'')),
           (''file'', (py_str w version @ ''/cactus.js.map'',
                      FileObj ''dist/cactus.js.map'' c2, ''application/json'')),
           (''file'', (py_str w version @ ''/style.css'',
                      FileObj ''dist/style.css'' c3, ''text/css'')),
           (''file'', (py_str w version @ ''/style.css.map'',
                      FileObj ''dist/style.js.map'' c4, ''application/json''))] \<and>
        hd (printed (events (main w))) = ''Uploading '' @ py_str w version @ '': 4 files...'' \<and>
        posted (events (main w)) = [q]"
    by (simp only: rq) blast
qed

text \<open>The sample world sends its request.\<close>

theorem version_read_once_items_fixed_witness:
  "count_list (opened (events (main sample_world))) ''package.json'' \<le> 1 \<and>
   Post sample_request \<in> set (events (main sample_world)) \<and>
   (\<exists>version txt items c1 c2 c3 c4 tr.
        fs sample_world ''package.json'' = Some txt \<and>
        json_load sample_world txt = Inr (JObject items) \<and>
        map_of items ''version'' = Some version \<and>
        VERSION sample_world [] = (Inr version, [Open ''package.json'']) \<and>
        opened (events (main sample_world)) =
          [''package.json'', ''dist/cactus.js'', ''dist/cactus.js.map'', ''dist/style.css'',
           ''dist/style.js.map''] \<and>
        files sample_world version [Open ''package.json''] = (Inr (req_files sample_request), tr) \<and>
        req_files sample_request =
          [(''file'', (py_str sample_world version @ ''/cactus.js'',
                      FileObj ''dist/cactus.js'' c1, ''text/javascript'')),
           (''file'', (py_str sample_world version @ ''/cactus.js.map'',
                      FileObj ''dist/cactus.js.map'' c2, ''application/json'')),
           (''file'', (py_str sample_world version @ ''/style.css'',
                      FileObj ''dist/style.css'' c3, ''text/css'')),
           (''file'', (py_str sample_world version @ ''/style.css.map'',
                      FileObj ''dist/style.js.map'' c4, ''application/json''))] \<and>
        hd (printed (events (main sample_world))) =
          ''Uploading '' @ py_str sample_world version @ '': 4 files...'' \<and>
        posted (events (main sample_world)) = [sample_request])"
proof -
  have h: "Post sample_request \<in> set (events (main sample_world))"
    by (simp add: events_main script_eq VERSION_def files_def report_eq prims sample_defs
        py_str_def stdout_writes_def str_int_def str_nat.simps)
  from version_read_once_items_fixed [of sample_world sample_request] show ?thesis
    using h by (intro conjI) blast+
qed

text \<open>
  Claim C9. The fourth item of \<^verbatim>\<open>files\<close> is the file opened at \<^verbatim>\<open>dist/style.js.map\<close> and is
  named \<^verbatim>\<open>{version}/style.css.map\<close>. For this item the file name of the source path and the file
  name of the part differ; for each of the first three items they are the same.
\<close>

theorem fourth_item_source_and_name_differ:
  assumes "files w version tr = (Inr fl, tr')"
  shows "length fl = 4 \<and>
     path (part_file (fl ! 3)) = ''dist/style.js.map'' \<and>
     fs w ''dist/style.js.map'' = Some (contents (part_file (fl ! 3))) \<and>
     part_name (fl ! 3) = py_str w version @ ''/style.css.map'' \<and>
     \<not> (\<exists>f. path (part_file (fl ! 3)) = ''dist/'' @ f \<and>
              part_name (fl ! 3) = py_str w version @ ''/'' @ f) \<and>
     (\<forall>i<3. \<exists>f. path (part_file (fl ! i)) = ''dist/'' @ f \<and>
                  part_name (fl ! i) = py_str w version @ ''/'' @ f)"
proof -
  from files_ok [OF assms] obtain c1 c2 c3 c4 where
    c4: "fs w ''dist/style.js.map'' = Some c4" and
    fl: "fl = [(''file'', (py_str w version @ ''/cactus.js'',
                      FileObj ''dist/cactus.js'' c1, ''text/javascript'')),
           (''file'', (py_str w version @ ''/cactus.js.map'',
                      FileObj ''dist/cactus.js.map'' c2, ''application/json'')),
           (''file'', (py_str w version @ ''/style.css'',
                      FileObj ''dist/style.css'' c3, ''text/css'')),
           (''file'', (py_str w version @ ''/style.css.map'',
                      FileObj ''dist/style.js.map'' c4, ''application/json''))]"
    by blast
  have i0: "path (part_file (fl ! 0)) = ''dist/'' @ ''cactus.js'' \<and>
            part_name (fl ! 0) = py_str w version @ ''/'' @ ''cactus.js''"
    and i1: "path (part_file (fl ! 1)) = ''dist/'' @ ''cactus.js.map'' \<and>
            part_name (fl ! 1) = py_str w version @ ''/'' @ ''cactus.js.map''"
    and i2: "path (part_file (fl ! 2)) = ''dist/'' @ ''style.css'' \<and>
            part_name (fl ! 2) = py_str w version @ ''/'' @ ''style.css''"
    by (simp_all add: fl part_file_def part_name_def)
  have others: "\<forall>i<3. \<exists>f. path (part_file (fl ! i)) = ''dist/'' @ f \<and>
                  part_name (fl ! i) = py_str w version @ ''/'' @ f"
  proof (intro allI impI)
    fix i :: nat
    assume "i < 3"
    then consider "i = 0" | "i = 1" | "i = 2"
      by linarith
    then show "\<exists>f. path (part_file (fl ! i)) = ''dist/'' @ f \<and>
                  part_name (fl ! i) = py_str w version @ ''/'' @ f"
      using i0 i1 i2 by cases blast+
  qed
  have fourth: "\<not> (\<exists>f. path (part_file (fl ! 3)) = ''dist/'' @ f \<and>
              part_name (fl ! 3) = py_str w version @ ''/'' @ f)"
    by (auto simp: fl part_file_def part_name_def)
  from others fourth c4 show ?thesis
    by (simp add: fl part_file_def part_name_def)
qed

text \<open>The list built in the sample world.\<close>

theorem fourth_item_source_and_name_differ_witness:
  "files sample_world (JString ''1.2.3'') [] =
     (Inr (req_files sample_request),
      [Open ''dist/cactus.js'', Open ''dist/cactus.js.map'', Open ''dist/style.css'',
       Open ''dist/style.js.map'']) \<and>
   length (req_files sample_request) = 4 \<and>
   path (part_file (req_files sample_request ! 3)) = ''dist/style.js.map'' \<and>
   fs sample_world ''dist/style.js.map'' = Some (contents (part_file (req_files sample_request ! 3))) \<and>
   part_name (req_files sample_request ! 3) = ''1.2.3/style.css.map'' \<and>
   \<not> (\<exists>f. path (part_file (req_files sample_request ! 3)) = ''dist/'' @ f \<and>
            part_name (req_files sample_request ! 3) = ''1.2.3/'' @ f) \<and>
   (\<exists>f. path (part_file (req_files sample_request ! 0)) = ''dist/'' @ f \<and>
        part_name (req_files sample_request ! 0) = ''1.2.3/'' @ f) \<and>
   (\<exists>f. path (part_file (req_files sample_request ! 1)) = ''dist/'' @ f \<and>
        part_name (req_files sample_request ! 1) = ''1.2.3/'' @ f) \<and>
   (\<exists>f. path (part_file (req_files sample_request ! 2)) = ''dist/'' @ f \<and>
        part_name (req_files sample_request ! 2) = ''1.2.3/'' @ f)"
proof -
  have h: "files sample_world (JString ''1.2.3'') [] =
     (Inr (req_files sample_request),
      [Open ''dist/cactus.js'', Open ''dist/cactus.js.map'', Open ''dist/style.css'',
       Open ''dist/style.js.map''])"
    by (simp add: files_def prims sample_defs py_str_def upload_request_def)
  have v: "py_str sample_world (JString ''1.2.3'') = ''1.2.3''"
    by (simp add: py_str_def)
  have lt: "(0::nat) < 3" "(1::nat) < 3" "(2::nat) < 3"
    by simp_all
  from fourth_item_source_and_name_differ [OF h] have
    main: "length (req_files sample_request) = 4 \<and>
     path (part_file (req_files sample_request ! 3)) = ''dist/style.js.map'' \<and>
     fs sample_world ''dist/style.js.map'' =
       Some (contents (part_file (req_files sample_request ! 3))) \<and>
     part_name (req_files sample_request ! 3) = ''1.2.3/style.css.map'' \<and>
     \<not> (\<exists>f. path (part_file (req_files sample_request ! 3)) = ''dist/'' @ f \<and>
              part_name (req_files sample_request ! 3) = ''1.2.3/'' @ f)" and
    others: "\<forall>i<3. \<exists>f. path (part_file (req_files sample_request ! i)) = ''dist/'' @ f \<and>
                  part_name (req_files sample_request ! i) = ''1.2.3/'' @ f"
    by (simp_all only: v append_Cons append_Nil) blast+
  from others lt have
    "\<exists>f. path (part_file (req_files sample_request ! 0)) = ''dist/'' @ f \<and>
        part_name (req_files sample_request ! 0) = ''1.2.3/'' @ f"
    "\<exists>f. path (part_file (req_files sample_request ! 1)) = ''dist/'' @ f \<and>
        part_name (req_files sample_request ! 1) = ''1.2.3/'' @ f"
    "\<exists>f. path (part_file (req_files sample_request ! 2)) = ''dist/'' @ f \<and>
        part_name (req_files sample_request ! 2) = ''1.2.3/'' @ f"
    by blast+
  with main h show ?thesis
    by (intro conjI) blast+
qed

end
